theory Spec2Isabelle
  imports Complex_Main "HOL-Library.Multiset"
begin

section \<open>Numbers and errors of the scripts\<close>

text \<open>
  The three scripts compute with Python floats, Python ints and NumPy arrays of floats.
  Floats are idealised as \<^typ>\<open>real\<close> (no rounding, no overflow), ints are \<^typ>\<open>int\<close>.
  What remains of the float semantics is the behaviour at a zero divisor, which differs:
  a division of two Python numbers raises \<open>ZeroDivisionError\<close>, while a NumPy array
  divided by zero raises nothing and holds \<open>inf\<close> or \<open>nan\<close> (with a warning only).
\<close>

datatype py_error = ZeroDivisionError

text \<open>The Python operator \<open>/\<close> on two Python numbers.\<close>

definition py_truediv :: "real \<Rightarrow> real \<Rightarrow> py_error + real" where
  "py_truediv a b = (if b = 0 then Inl ZeroDivisionError else Inr (a / b))"

text \<open>Python's \<open>int(x)\<close> on a float: truncation towards zero.\<close>

definition py_int :: "real \<Rightarrow> int" where
  "py_int v = (if 0 \<le> v then \<lfloor>v\<rfloor> else \<lceil>v\<rceil>)"

text \<open>An element of a NumPy float array: a finite number, or one of \<open>inf\<close>, \<open>-inf\<close>, \<open>nan\<close>.\<close>

datatype np_float = Finite real | Not_Finite

text \<open>
  The NumPy operator \<open>/\<close> of an array element by a Python float. Not finite at a zero
  divisor (\<open>nan\<close> for \<open>0/0\<close>, an infinity otherwise); no exception.
\<close>

definition np_divide :: "real \<Rightarrow> real \<Rightarrow> np_float" where
  "np_divide a b = (if b = 0 then Not_Finite else Finite (a / b))"

text \<open>
  Arithmetic of a NumPy element with finite Python floats, here \<open>c - d * v\<close>: a value
  that is not finite stays so (\<open>d * nan\<close>, \<open>c - nan\<close> are \<open>nan\<close>; \<open>0 * inf\<close> is \<open>nan\<close>).
\<close>

fun np_lift :: "(real \<Rightarrow> real) \<Rightarrow> np_float \<Rightarrow> np_float" where
  "np_lift f (Finite v) = Finite (f v)"
| "np_lift f Not_Finite = Not_Finite"

definition np_degrees :: "real \<Rightarrow> real" where
  "np_degrees a = a * (180 / pi)"

text \<open>\<open>np.linspace(start, stop, num)\<close> for \<open>num > 1\<close>: \<open>start + k * step\<close>.\<close>

definition np_linspace :: "real \<Rightarrow> real \<Rightarrow> nat \<Rightarrow> real list" where
  "np_linspace start stop num =
     map (\<lambda>k. start + real k * ((stop - start) / real (num - 1))) [0..<num]"

definition np_full_like :: "'a list \<Rightarrow> 'b \<Rightarrow> 'b list" where
  "np_full_like a fill_value = map (\<lambda>_. fill_value) a"

text \<open>\<open>np.diff\<close> of a one-dimensional sequence: the consecutive differences.\<close>

fun np_diff :: "real list \<Rightarrow> real list" where
  "np_diff (a # b # rest) = (b - a) # np_diff (b # rest)"
| "np_diff _ = []"

text \<open>
  \<open>np.mean\<close>. The scripts call it on a sequence with at least one element only
  (see \<open>space_between_rows\<close>); on an empty one NumPy gives \<open>nan\<close>.
\<close>

definition np_mean :: "real list \<Rightarrow> real" where
  "np_mean a = sum_list a / real (length a)"

section \<open>The inputs\<close>

text \<open>
  The values the Streamlit widgets hand to a script. \<open>pcd_slider i\<close> is the value of
  the slider "PCD for Row i+1", \<open>holes_input i\<close> that of the number input
  "Holes in Row i+1" (which only the \<open>die_designer_final\<close> scripts have).
\<close>

record widgets =
  pellet_size :: real
  bulk_density :: int
  final_fat :: int
  plate_thickness :: real
  final_diameter :: real
  cone_diameter :: real
  channel_length :: real
  total_holes :: int
  dry_meal_throughput :: real
  number_of_rows :: int
  pcd_slider :: "nat \<Rightarrow> real"
  holes_input :: "nat \<Rightarrow> int"

text \<open>The loop \<open>for i in range(number_of_rows): ... pcd_values.append(pcd)\<close>.\<close>

definition pcd_values :: "widgets \<Rightarrow> real list" where
  "pcd_values w = map (pcd_slider w) [0..<nat (number_of_rows w)]"

definition holes_per_row_list :: "widgets \<Rightarrow> int list" where
  "holes_per_row_list w = map (holes_input w) [0..<nat (number_of_rows w)]"

section \<open>Calculated outputs of \<open>die_perforation_6.py\<close>\<close>

definition cone_length :: "widgets \<Rightarrow> real" where
  "cone_length w = plate_thickness w - channel_length w"

definition cone_radius :: "widgets \<Rightarrow> real" where
  "cone_radius w = \<bar>(cone_diameter w - final_diameter w) / 2\<bar>"

definition cone_angle_rad :: "widgets \<Rightarrow> py_error + real" where
  "cone_angle_rad w =
     (if cone_length w > 0
      then (case py_truediv (cone_radius w) (cone_length w) of
              Inl e \<Rightarrow> Inl e
            | Inr q \<Rightarrow> Inr (arctan q))
      else Inr 0)"

definition cone_angle_deg :: "widgets \<Rightarrow> py_error + real" where
  "cone_angle_deg w =
     (case cone_angle_rad w of Inl e \<Rightarrow> Inl e | Inr a \<Rightarrow> Inr (np_degrees a))"

definition holes_per_row :: "widgets \<Rightarrow> py_error + int" where
  "holes_per_row w =
     (case py_truediv (real_of_int (total_holes w)) (real_of_int (number_of_rows w)) of
        Inl e \<Rightarrow> Inl e
      | Inr q \<Rightarrow> Inr (py_int q))"

definition open_area_one_hole :: "widgets \<Rightarrow> real" where
  "open_area_one_hole w = pi * (final_diameter w / 2) ^ 2"

definition total_open_area :: "widgets \<Rightarrow> real" where
  "total_open_area w = open_area_one_hole w * real_of_int (total_holes w)"

definition open_area_per_tonne :: "widgets \<Rightarrow> py_error + real" where
  "open_area_per_tonne w = py_truediv (total_open_area w) (dry_meal_throughput w)"

definition expansion :: "widgets \<Rightarrow> py_error + real" where
  "expansion w =
     (if pellet_size w > 0
      then (case py_truediv (final_diameter w) (pellet_size w) of
              Inl e \<Rightarrow> Inl e
            | Inr q \<Rightarrow> Inr ((1 - q) * 100))
      else Inr 0)"

text \<open>
  The loop over \<open>pcd_values\<close> that appends one spacing per row; the list built so far
  is the last argument. The divisor is the Python int \<open>holes_per_row\<close>.
\<close>

fun space_between_holes_loop ::
  "real \<Rightarrow> int \<Rightarrow> real list \<Rightarrow> real list \<Rightarrow> py_error + real list" where
  "space_between_holes_loop fd hpr [] acc = Inr acc"
| "space_between_holes_loop fd hpr (pcd # rest) acc =
     (let radius = pcd / 2 in
      case py_truediv (2 * pi * radius) (real_of_int hpr) of
        Inl e \<Rightarrow> Inl e
      | Inr arc_length \<Rightarrow>
          space_between_holes_loop fd hpr rest (acc @ [arc_length - fd]))"

definition space_between_holes_list :: "widgets \<Rightarrow> int \<Rightarrow> py_error + real list" where
  "space_between_holes_list w hpr =
     space_between_holes_loop (final_diameter w) hpr (pcd_values w) []"

definition space_between_rows :: "widgets \<Rightarrow> real" where
  "space_between_rows w =
     (if length (pcd_values w) > 1 then np_mean (np_diff (sort (pcd_values w))) else 0)"

text \<open>
  The block "Calculated Outputs" as a whole, statement by statement in the order of
  the script; the first exception ends it.
\<close>

record outputs =
  out_cone_length :: real
  out_cone_angle_deg :: real
  out_holes_per_row :: int
  out_open_area_one_hole :: real
  out_total_open_area :: real
  out_open_area_per_tonne :: real
  out_expansion :: real
  out_space_between_holes_list :: "real list"
  out_space_between_rows :: real

definition calculated_outputs :: "widgets \<Rightarrow> py_error + outputs" where
  "calculated_outputs w =
     (case cone_angle_deg w of Inl e \<Rightarrow> Inl e | Inr angle \<Rightarrow>
     (case holes_per_row w of Inl e \<Rightarrow> Inl e | Inr hpr \<Rightarrow>
     (case open_area_per_tonne w of Inl e \<Rightarrow> Inl e | Inr oapt \<Rightarrow>
     (case expansion w of Inl e \<Rightarrow> Inl e | Inr ex \<Rightarrow>
     (case space_between_holes_list w hpr of Inl e \<Rightarrow> Inl e | Inr spacings \<Rightarrow>
        Inr \<lparr>out_cone_length = cone_length w,
             out_cone_angle_deg = angle,
             out_holes_per_row = hpr,
             out_open_area_one_hole = open_area_one_hole w,
             out_total_open_area = total_open_area w,
             out_open_area_per_tonne = oapt,
             out_expansion = ex,
             out_space_between_holes_list = spacings,
             out_space_between_rows = space_between_rows w\<rparr>)))))"

section \<open>The two-dimensional cross-section\<close>

text \<open>
  \<open>patches.Polygon(xy, closed=True, ...)\<close> and \<open>patches.Rectangle(xy, width, height, ...)\<close>
  as plain data; colours and labels are left out. All three scripts build the same two
  patches.
\<close>

record polygon =
  xy :: "(real \<times> real) list"
  closed :: bool

record rectangle =
  rect_xy :: "real \<times> real"
  width :: real
  height :: real

definition cone_patch :: "widgets \<Rightarrow> polygon" where
  "cone_patch w =
     \<lparr>xy = [(- cone_diameter w / 2, 0),
            (- final_diameter w / 2, cone_length w),
            (- final_diameter w / 2, plate_thickness w),
            (final_diameter w / 2, plate_thickness w),
            (final_diameter w / 2, cone_length w),
            (cone_diameter w / 2, 0)],
      closed = True\<rparr>"

definition channel_patch :: "widgets \<Rightarrow> rectangle" where
  "channel_patch w =
     \<lparr>rect_xy = (- final_diameter w / 2, cone_length w),
      width = final_diameter w,
      height = channel_length w\<rparr>"

section \<open>The surface of revolution of \<open>die_perforation_6.py\<close>\<close>

definition z_cone :: "widgets \<Rightarrow> real list" where
  "z_cone w = np_linspace 0 (cone_length w) 30"

definition z_channel :: "widgets \<Rightarrow> real list" where
  "z_channel w = np_linspace (cone_length w) (plate_thickness w) 10"

definition theta :: "real list" where
  "theta = np_linspace 0 (2 * pi) 30"

definition r_cone :: "widgets \<Rightarrow> np_float list" where
  "r_cone w =
     (if cone_length w > 0
      then map (\<lambda>z. np_lift (\<lambda>q. cone_diameter w / 2
                                   - (cone_diameter w - final_diameter w) / 2 * q)
                            (np_divide z (cone_length w)))
               (z_cone w)
      else np_full_like (z_cone w) (Finite (final_diameter w / 2)))"

definition r_channel :: "widgets \<Rightarrow> real list" where
  "r_channel w = np_full_like (z_channel w) (final_diameter w / 2)"

text \<open>
  \<open>r_channel[:, np.newaxis] * np.cos(theta_grid2)\<close>: one row per depth sample, one
  column per angle sample.
\<close>

definition x_channel :: "widgets \<Rightarrow> real list list" where
  "x_channel w = map (\<lambda>r. map (\<lambda>t. r * cos t) theta) (r_channel w)"

definition y_channel :: "widgets \<Rightarrow> real list list" where
  "y_channel w = map (\<lambda>r. map (\<lambda>t. r * sin t) theta) (r_channel w)"

section \<open>The ring layout\<close>

text \<open>
  \<open>patches.Circle((x, y), final_diameter / 2, ...)\<close>, together with the index of the row
  whose loop iteration drew it.
\<close>

record hole =
  hole_row :: nat
  hole_x :: real
  hole_y :: real
  hole_radius :: real

definition hole_angle :: "int \<Rightarrow> nat \<Rightarrow> real" where
  "hole_angle n i = 2 * pi * real i / real_of_int n"

text \<open>
  The inner loop \<open>for i in range(n)\<close>, which all scripts share: \<open>n\<close> is
  \<open>holes_per_row\<close> in \<open>die_perforation_6.py\<close> and the row's own count in the
  \<open>die_designer_final\<close> scripts. The division by \<open>n\<close> is inside the loop body, which
  runs for \<open>n > 0\<close> only.
\<close>

definition ring_row :: "real \<Rightarrow> nat \<Rightarrow> real \<Rightarrow> int \<Rightarrow> hole list" where
  "ring_row fd row radius n =
     map (\<lambda>i. \<lparr>hole_row = row,
                hole_x = radius * cos (hole_angle n i),
                hole_y = radius * sin (hole_angle n i),
                hole_radius = fd / 2\<rparr>)
         [0..<nat n]"

text \<open>
  \<open>die_perforation_6.py\<close>: \<open>for row, pcd in enumerate(pcd_values)\<close>, every row with
  \<open>holes_per_row\<close> holes. One list of holes per row, in the order drawn.
\<close>

definition ring_layout :: "widgets \<Rightarrow> int \<Rightarrow> hole list list" where
  "ring_layout w hpr =
     map (\<lambda>(row, pcd). ring_row (final_diameter w) row (pcd / 2) hpr)
         (enumerate 0 (pcd_values w))"

section \<open>The \<open>die_designer_final\<close> scripts\<close>

text \<open>
  \<open>die_designer_final_4.py\<close> and \<open>die_designer_final_3_updated_v4_techdraw_updated.py\<close>
  have the same calculations (lines 39 to 46 of both). They differ from
  \<open>die_perforation_6.py\<close> in three places: no \<open>abs\<close> in \<open>cone_radius\<close>, no test of
  \<open>cone_length\<close> before the division, no test of \<open>pellet_size\<close> before the division.
  The other calculated values are those defined above.
\<close>

definition cone_radius_final :: "widgets \<Rightarrow> real" where
  "cone_radius_final w = (cone_diameter w - final_diameter w) / 2"

definition cone_angle_rad_final :: "widgets \<Rightarrow> py_error + real" where
  "cone_angle_rad_final w =
     (case py_truediv (cone_radius_final w) (cone_length w) of
        Inl e \<Rightarrow> Inl e
      | Inr q \<Rightarrow> Inr (arctan q))"

definition cone_angle_deg_final :: "widgets \<Rightarrow> py_error + real" where
  "cone_angle_deg_final w =
     (case cone_angle_rad_final w of Inl e \<Rightarrow> Inl e | Inr a \<Rightarrow> Inr (np_degrees a))"

definition expansion_final :: "widgets \<Rightarrow> py_error + real" where
  "expansion_final w =
     (case py_truediv (final_diameter w) (pellet_size w) of
        Inl e \<Rightarrow> Inl e
      | Inr q \<Rightarrow> Inr ((1 - q) * 100))"

text \<open>
  The ring layout: \<open>for row in range(number_of_rows)\<close>, reading \<open>pcd_values[row]\<close> and
  the row's own hole count. Both lists have \<open>number_of_rows\<close> elements, so the reads
  are in range (lemma \<open>length_pcd_values\<close> below).
\<close>

definition ring_layout_final :: "widgets \<Rightarrow> hole list list" where
  "ring_layout_final w =
     map (\<lambda>row. ring_row (final_diameter w) row (pcd_values w ! row / 2)
                          (holes_per_row_list w ! row))
         [0..<nat (number_of_rows w)]"

section \<open>The widgets' initial values\<close>

text \<open>
  The \<open>value\<close> argument of every widget of \<open>die_perforation_6.py\<close> and of
  \<open>die_designer_final_4.py\<close>; the number input "Holes in Row" exists in the latter only.
\<close>

definition perforation_defaults :: widgets where
  "perforation_defaults =
     \<lparr>pellet_size = 3, bulk_density = 500, final_fat = 10, plate_thickness = 20,
      final_diameter = 3, cone_diameter = 6, channel_length = 5, total_holes = 100,
      dry_meal_throughput = 10, number_of_rows = 5,
      pcd_slider = (\<lambda>_. 100), holes_input = (\<lambda>_. 10)\<rparr>"

definition final_defaults :: widgets where
  "final_defaults =
     \<lparr>pellet_size = 5, bulk_density = 500, final_fat = 20, plate_thickness = 20,
      final_diameter = 10, cone_diameter = 12, channel_length = 10, total_holes = 100,
      dry_meal_throughput = 10, number_of_rows = 5,
      pcd_slider = (\<lambda>_. 100), holes_input = (\<lambda>_. 10)\<rparr>"

text \<open>
  Three rows with the pitch circle diameters 200, 100 and 400, and the same three rows
  in another order.
\<close>

definition three_rows :: widgets where
  "three_rows = perforation_defaults\<lparr>number_of_rows := 3, pcd_slider := (\<lambda>i. [200, 100, 400] ! i)\<rparr>"

definition three_rows_permuted :: widgets where
  "three_rows_permuted = perforation_defaults\<lparr>number_of_rows := 3, pcd_slider := (\<lambda>i. [400, 200, 100] ! i)\<rparr>"

section \<open>Auxiliary facts\<close>

lemma length_pcd_values: "length (pcd_values w) = nat (number_of_rows w)"
  by (simp add: pcd_values_def)

lemma cone_angle_deg_positive_length:
  assumes "cone_length w > 0"
  shows "cone_angle_deg w =
    Inr (np_degrees (arctan (\<bar>cone_diameter w - final_diameter w\<bar> / 2 / cone_length w)))"
  using assms by (simp add: cone_angle_deg_def cone_angle_rad_def py_truediv_def cone_radius_def)

lemma cone_angle_deg_degenerate:
  assumes "cone_length w \<le> 0"
  shows "cone_angle_deg w = Inr 0"
  using assms by (simp add: cone_angle_deg_def cone_angle_rad_def np_degrees_def)

lemma np_degrees_arctan_nonneg:
  assumes "0 \<le> q" shows "0 \<le> np_degrees (arctan q)"
  using assms by (simp add: np_degrees_def)

lemma np_degrees_arctan_eq_0_iff: "np_degrees (arctan q) = 0 \<longleftrightarrow> q = 0"
  by (simp add: np_degrees_def)

lemma cone_angle_deg_zero_iff:
  assumes "cone_length w > 0"
  shows "cone_angle_deg w = Inr 0 \<longleftrightarrow> cone_diameter w = final_diameter w"
  using assms by (simp add: cone_angle_deg_positive_length np_degrees_arctan_eq_0_iff)

lemma py_int_of_int_div:
  assumes "0 \<le> a" "0 < b"
  shows "py_int (real_of_int a / real_of_int b) = a div b"
  using assms by (simp add: py_int_def floor_divide_of_int_eq)

lemma length_ring_row: "length (ring_row fd row radius n) = nat n"
  by (simp add: ring_row_def)

lemma length_ring_layout: "length (ring_layout w hpr) = nat (number_of_rows w)"
  by (simp add: ring_layout_def length_pcd_values)

lemma length_concat_ring_layout:
  "length (concat (ring_layout w hpr)) = nat (number_of_rows w) * nat hpr"
proof -
  have "map length (ring_layout w hpr) = replicate (nat (number_of_rows w)) (nat hpr)"
    by (simp add: ring_layout_def length_ring_row map_replicate_const length_pcd_values
        case_prod_unfold comp_def)
  then show ?thesis
    by (simp add: length_concat sum_list_replicate)
qed

lemma space_between_holes_loop_ok:
  assumes "hpr \<noteq> 0"
  shows "space_between_holes_loop fd hpr pcds acc =
     Inr (acc @ map (\<lambda>pcd. 2 * pi * (pcd / 2) / real_of_int hpr - fd) pcds)"
  using assms by (induction pcds arbitrary: acc) (simp_all add: py_truediv_def)

lemma space_between_holes_loop_zero:
  "space_between_holes_loop fd 0 (pcd # rest) acc = Inl ZeroDivisionError"
  by (simp add: py_truediv_def)

lemma cone_angle_deg_returns: "\<exists>a. cone_angle_deg w = Inr a"
  by (cases "cone_length w > 0")
    (simp_all add: cone_angle_deg_positive_length cone_angle_deg_degenerate)

lemma expansion_returns: "\<exists>x. expansion w = Inr x"
  by (simp add: expansion_def py_truediv_def)

lemma holes_per_row_error_iff:
  "holes_per_row w = Inl ZeroDivisionError \<longleftrightarrow> number_of_rows w = 0"
  by (simp add: holes_per_row_def py_truediv_def)

lemma open_area_per_tonne_error_iff:
  "open_area_per_tonne w = Inl ZeroDivisionError \<longleftrightarrow> dry_meal_throughput w = 0"
  by (simp add: open_area_per_tonne_def py_truediv_def)

lemma space_between_holes_list_error_iff:
  "space_between_holes_list w hpr = Inl ZeroDivisionError
     \<longleftrightarrow> hpr = 0 \<and> 1 \<le> number_of_rows w"
proof (cases "hpr = 0")
  case False
  then show ?thesis
    by (simp add: space_between_holes_list_def space_between_holes_loop_ok)
next
  case True
  show ?thesis
  proof (cases "pcd_values w")
    case Nil
    then have "\<not> 1 \<le> number_of_rows w"
      using length_pcd_values [of w] by simp
    with Nil True show ?thesis
      by (simp add: space_between_holes_list_def)
  next
    case (Cons pcd rest)
    then have "1 \<le> number_of_rows w"
      using length_pcd_values [of w] by simp
    with Cons True show ?thesis
      by (simp add: space_between_holes_list_def py_truediv_def)
  qed
qed

lemma calculated_outputs_error_iff:
  "calculated_outputs w = Inl ZeroDivisionError \<longleftrightarrow>
     number_of_rows w = 0 \<or> dry_meal_throughput w = 0
     \<or> (1 \<le> number_of_rows w \<and> holes_per_row w = Inr 0)"
proof -
  obtain a where a: "cone_angle_deg w = Inr a"
    using cone_angle_deg_returns by blast
  obtain x where x: "expansion w = Inr x"
    using expansion_returns by blast
  show ?thesis
  proof (cases "holes_per_row w")
    case (Inl e)
    then have "number_of_rows w = 0"
      using holes_per_row_error_iff [of w] by (cases e) simp
    with Inl a show ?thesis
      by (cases e) (simp add: calculated_outputs_def)
  next
    case (Inr hpr)
    then have nz: "number_of_rows w \<noteq> 0"
      using holes_per_row_error_iff [of w] by auto
    show ?thesis
    proof (cases "open_area_per_tonne w")
      case (Inl e)
      then have "dry_meal_throughput w = 0"
        using open_area_per_tonne_error_iff [of w] by (cases e) simp
      with Inl Inr a show ?thesis
        by (cases e) (simp add: calculated_outputs_def)
    next
      case o: (Inr oapt)
      then have dz: "dry_meal_throughput w \<noteq> 0"
        using open_area_per_tonne_error_iff [of w] by auto
      show ?thesis
      proof (cases "space_between_holes_list w hpr")
        case (Inl e)
        then have "hpr = 0 \<and> 1 \<le> number_of_rows w"
          using space_between_holes_list_error_iff [of w hpr] by (cases e) simp
        with Inl Inr o a x show ?thesis
          by (cases e) (simp add: calculated_outputs_def)
      next
        case s: (Inr spacings)
        then have "\<not> (hpr = 0 \<and> 1 \<le> number_of_rows w)"
          using space_between_holes_list_error_iff [of w hpr] by auto
        with s Inr o a x nz dz show ?thesis
          by (auto simp add: calculated_outputs_def)
      qed
    qed
  qed
qed

lemma holes_per_row_zero:
  assumes "0 \<le> total_holes w" and "total_holes w < number_of_rows w"
  shows "holes_per_row w = Inr 0"
  using assms by (simp add: holes_per_row_def py_truediv_def py_int_of_int_div)

lemma length_np_diff: "length (np_diff a) = length a - 1"
  by (induction a rule: np_diff.induct) simp_all

lemma nth_np_diff: "Suc i < length a \<Longrightarrow> np_diff a ! i = a ! Suc i - a ! i"
proof (induction a arbitrary: i rule: np_diff.induct)
  case (1 a b rest)
  then show ?case by (cases i) simp_all
qed simp_all

lemma sum_list_np_diff: "a \<noteq> [] \<Longrightarrow> sum_list (np_diff a) = last a - hd a"
  by (induction a rule: np_diff.induct) simp_all

lemma sorted_hd_Min: "sorted a \<Longrightarrow> a \<noteq> [] \<Longrightarrow> hd a = Min (set a)"
  by (cases a) (auto intro!: Min_eqI [symmetric])

lemma sorted_last_Max: "sorted a \<Longrightarrow> a \<noteq> [] \<Longrightarrow> last a = Max (set a)"
proof (induction a)
  case (Cons x a)
  show ?case
  proof (cases "a = []")
    case False
    with Cons have "last a = Max (set a)" by simp
    moreover have "x \<le> Max (set a)"
      using Cons.prems False by (metis List.finite_set Max_ge_iff hd_in_set set_empty sorted_simps(2))
    ultimately show ?thesis using False by (simp add: max_def)
  qed simp
qed simp

lemma np_mean_np_diff_sort:
  assumes "2 \<le> length a"
  shows "np_mean (np_diff (sort a)) = (Max (set a) - Min (set a)) / (real (length a) - 1)"
proof -
  have ne: "sort a \<noteq> []" using assms by (metis length_sort list.size(3) not_numeral_le_zero)
  have "sum_list (np_diff (sort a)) = Max (set a) - Min (set a)"
    using sum_list_np_diff [OF ne] sorted_hd_Min [OF sorted_sort ne]
      sorted_last_Max [OF sorted_sort ne] by simp
  moreover have "real (length (np_diff (sort a))) = real (length a) - 1"
    using assms by (simp add: length_np_diff of_nat_diff)
  ultimately show ?thesis by (simp add: np_mean_def)
qed

lemma sort_mset_eq: "mset a = mset b \<Longrightarrow> sort a = sort (b :: real list)"
  by (rule properties_for_sort) simp_all

lemma length_np_linspace: "length (np_linspace a b n) = n"
  by (simp add: np_linspace_def)

lemma nth_np_linspace:
  "k < n \<Longrightarrow> np_linspace a b n ! k = a + real k * ((b - a) / real (n - 1))"
  by (simp add: np_linspace_def)

lemma length_z_cone: "length (z_cone w) = 30"
  by (simp add: z_cone_def length_np_linspace)

lemma nth_z_cone: "k < 30 \<Longrightarrow> z_cone w ! k = real k * (cone_length w / 29)"
  by (simp add: z_cone_def nth_np_linspace)

lemma z_cone_range:
  assumes "k < 30" and "0 < cone_length w"
  shows "0 \<le> z_cone w ! k \<and> z_cone w ! k \<le> cone_length w"
proof -
  have "real k \<le> 29" using assms(1) by simp
  then have "real k * (cone_length w / 29) \<le> 29 * (cone_length w / 29)"
    using assms(2) by (intro mult_right_mono) simp_all
  then show ?thesis using assms by (simp add: nth_z_cone)
qed

lemma z_cone_ends: "z_cone w ! 0 = 0 \<and> z_cone w ! 29 = cone_length w"
  by (simp add: nth_z_cone)

lemma r_cone_positive_length:
  assumes "0 < cone_length w" and "k < 30"
  shows "r_cone w ! k =
     Finite (cone_diameter w / 2
             - (cone_diameter w - final_diameter w) / 2 * (z_cone w ! k / cone_length w))"
  using assms by (simp add: r_cone_def length_z_cone np_divide_def)

lemma r_cone_degenerate:
  assumes "cone_length w \<le> 0"
  shows "r_cone w = replicate 30 (Finite (final_diameter w / 2))"
  using assms by (simp add: r_cone_def np_full_like_def map_replicate_const length_z_cone)

lemma length_r_cone: "length (r_cone w) = 30"
  by (simp add: r_cone_def np_full_like_def length_z_cone)

lemma r_channel_constant: "r_channel w = replicate 10 (final_diameter w / 2)"
  by (simp add: r_channel_def np_full_like_def map_replicate_const z_channel_def
      length_np_linspace)

lemma circle_sum_squares: "(r * cos a)\<^sup>2 + (r * sin a)\<^sup>2 = r\<^sup>2" for r a :: real
  by (simp add: power_mult_distrib flip: distrib_left)

lemma channel_surface_radius:
  assumes "j < 10" and "i < 30"
  shows "(x_channel w ! j ! i)\<^sup>2 + (y_channel w ! j ! i)\<^sup>2 = (final_diameter w / 2)\<^sup>2"
proof -
  have "length theta = 30" by (simp add: theta_def length_np_linspace)
  then have "x_channel w ! j ! i = final_diameter w / 2 * cos (theta ! i)"
    and "y_channel w ! j ! i = final_diameter w / 2 * sin (theta ! i)"
    using assms by (simp_all add: x_channel_def y_channel_def r_channel_constant)
  then show ?thesis
    by (simp only: circle_sum_squares)
qed

lemma nth_ring_row:
  assumes "i < nat n"
  shows "ring_row fd row radius n ! i =
     \<lparr>hole_row = row,
      hole_x = radius * cos (2 * pi * real i / real_of_int n),
      hole_y = radius * sin (2 * pi * real i / real_of_int n),
      hole_radius = fd / 2\<rparr>"
  using assms by (simp add: ring_row_def hole_angle_def)

lemma ring_layout_row:
  assumes "row < nat (number_of_rows w)"
  shows "ring_layout w n ! row = ring_row (final_diameter w) row (pcd_values w ! row / 2) n"
  using assms by (simp add: ring_layout_def length_pcd_values nth_enumerate_eq)

lemma ring_layout_final_row:
  assumes "row < nat (number_of_rows w)"
  shows "ring_layout_final w ! row =
     ring_row (final_diameter w) row (pcd_values w ! row / 2) (holes_per_row_list w ! row)"
  using assms by (simp add: ring_layout_final_def)

lemma hole_angle_step:
  assumes "n \<noteq> 0"
  shows "hole_angle n (Suc i) - hole_angle n i = 2 * pi / real_of_int n"
  using assms by (simp add: hole_angle_def field_simps)

lemma circle_distance: "sqrt ((r * cos a)\<^sup>2 + (r * sin a)\<^sup>2) = \<bar>r\<bar>" for r a :: real
  by (simp add: circle_sum_squares)

section \<open>The claims\<close>

subsection \<open>C1: the cone angle\<close>

text \<open>
  In \<open>die_perforation_6.py\<close> the cone angle is as claim C1 says: see
  \<open>cone_angle_deg_positive_length\<close>, \<open>cone_angle_deg_zero_iff\<close> and
  \<open>cone_angle_deg_degenerate\<close> above. The \<open>die_designer_final\<close> scripts divide by
  \<open>cone_length\<close> without the test.
\<close>

text \<open>
  C1, at the input "Total Plate Thickness" 20 and "Channel (Land) Length" 20, which the
  channel slider allows (its maximum is \<open>min(35.0, plate_thickness)\<close>): the cone length
  is 0, the calculation of the \<open>die_designer_final\<close> scripts raises
  \<open>ZeroDivisionError\<close>, while that of \<open>die_perforation_6.py\<close> returns the angle 0.
  And at "Cone Opening Diameter" 3 under "Final Hole Diameter" 10, the
  \<open>die_designer_final\<close> scripts, which take no absolute value, return a negative angle.
\<close>

theorem cone_angle_deg_final_unguarded:
  "cone_length (final_defaults\<lparr>channel_length := 20\<rparr>) = 0
   \<and> cone_angle_deg_final (final_defaults\<lparr>channel_length := 20\<rparr>) = Inl ZeroDivisionError
   \<and> cone_angle_deg (final_defaults\<lparr>channel_length := 20\<rparr>) = Inr 0
   \<and> cone_angle_deg_final (final_defaults\<lparr>cone_diameter := 3\<rparr>)
        = Inr (np_degrees (arctan (- (7 / 20))))
   \<and> np_degrees (arctan (- (7 / 20))) < 0
   \<and> cone_angle_deg (final_defaults\<lparr>cone_diameter := 3\<rparr>)
        = Inr (np_degrees (arctan (7 / 20)))"
proof -
  have "np_degrees (arctan (- (7 / 20))) < 0"
    by (simp add: np_degrees_def mult_neg_pos arctan_minus)
  then show ?thesis
    by (simp add: final_defaults_def cone_length_def cone_angle_deg_final_def
      cone_angle_rad_final_def cone_radius_final_def py_truediv_def
      cone_angle_deg_def cone_angle_rad_def cone_radius_def np_degrees_def)
qed

subsection \<open>C2: the expansion\<close>

text \<open>
  C2 as stated fails in \<open>die_designer_final_4.py\<close>: at pellet size 0 the expansion
  is not 0, \<open>ZeroDivisionError\<close> is raised.
\<close>

theorem expansion_final_zero_pellet_size:
  "pellet_size (final_defaults\<lparr>pellet_size := 0\<rparr>) \<le> 0
   \<and> expansion_final (final_defaults\<lparr>pellet_size := 0\<rparr>) = Inl ZeroDivisionError"
  by (simp add: final_defaults_def expansion_final_def py_truediv_def)

text \<open>
  C2, amended: for a pellet size above 0 the expansion is
  \<open>(1 - final_diameter / pellet_size) * 100\<close> in every script; for a pellet size of 0 or
  below, \<open>die_perforation_6.py\<close> returns 0 and raises nothing, while the
  \<open>die_designer_final\<close> scripts, which have no such test, raise \<open>ZeroDivisionError\<close>
  at 0 and return the value of the same formula below 0.
\<close>

theorem expansion_percent:
  "(pellet_size w > 0 \<longrightarrow>
      expansion w = Inr ((1 - final_diameter w / pellet_size w) * 100)
      \<and> expansion_final w = Inr ((1 - final_diameter w / pellet_size w) * 100))
   \<and> (pellet_size w \<le> 0 \<longrightarrow> expansion w = Inr 0)
   \<and> (pellet_size w = 0 \<longrightarrow> expansion_final w = Inl ZeroDivisionError)
   \<and> (pellet_size w < 0 \<longrightarrow>
        expansion_final w = Inr ((1 - final_diameter w / pellet_size w) * 100))"
  by (simp add: expansion_def expansion_final_def py_truediv_def)

theorem expansion_percent_witness:
  "pellet_size final_defaults > 0
   \<and> expansion final_defaults = Inr (- 100)
   \<and> expansion_final final_defaults = Inr (- 100)
   \<and> pellet_size (final_defaults\<lparr>pellet_size := 0\<rparr>) \<le> 0
   \<and> expansion (final_defaults\<lparr>pellet_size := 0\<rparr>) = Inr 0
   \<and> expansion_final (final_defaults\<lparr>pellet_size := 0\<rparr>) = Inl ZeroDivisionError
   \<and> pellet_size (final_defaults\<lparr>pellet_size := - 5\<rparr>) < 0
   \<and> expansion_final (final_defaults\<lparr>pellet_size := - 5\<rparr>) = Inr 300"
  using expansion_percent [of final_defaults]
    expansion_percent [of "final_defaults\<lparr>pellet_size := 0\<rparr>"]
    expansion_percent [of "final_defaults\<lparr>pellet_size := - 5\<rparr>"]
  by (simp add: final_defaults_def)

subsection \<open>C3: the open area per tonne\<close>

text \<open>
  C3 as stated fails: at a dry meal throughput of 0 the division is not guarded, and
  \<open>ZeroDivisionError\<close> is raised instead of 0 being returned.
\<close>

theorem open_area_per_tonne_zero_throughput:
  "dry_meal_throughput (perforation_defaults\<lparr>dry_meal_throughput := 0\<rparr>) \<le> 0
   \<and> open_area_per_tonne (perforation_defaults\<lparr>dry_meal_throughput := 0\<rparr>)
       = Inl ZeroDivisionError"
  by (simp add: perforation_defaults_def open_area_per_tonne_def py_truediv_def)

text \<open>
  C3, amended: for a dry meal throughput other than 0 (so for every one above 0) the
  open area per tonne is \<open>pi * (final_diameter / 2)\<^sup>2 * total_holes / dry_meal_throughput\<close>;
  at a throughput of 0 the division raises \<open>ZeroDivisionError\<close>. The calculation is the
  same in all three scripts.
\<close>

theorem open_area_per_tonne_quotient:
  "(dry_meal_throughput w \<noteq> 0 \<longrightarrow>
      open_area_per_tonne w =
        Inr (pi * (final_diameter w / 2) ^ 2 * real_of_int (total_holes w)
             / dry_meal_throughput w))
   \<and> (dry_meal_throughput w = 0 \<longrightarrow> open_area_per_tonne w = Inl ZeroDivisionError)"
  by (simp add: open_area_per_tonne_def py_truediv_def total_open_area_def
      open_area_one_hole_def)

theorem open_area_per_tonne_quotient_witness:
  "dry_meal_throughput perforation_defaults \<noteq> 0
   \<and> open_area_per_tonne perforation_defaults = Inr (pi * (3 / 2) ^ 2 * 100 / 10)
   \<and> dry_meal_throughput (perforation_defaults\<lparr>dry_meal_throughput := 0\<rparr>) = 0
   \<and> open_area_per_tonne (perforation_defaults\<lparr>dry_meal_throughput := 0\<rparr>)
       = Inl ZeroDivisionError"
  using open_area_per_tonne_quotient [of perforation_defaults]
    open_area_per_tonne_quotient [of "perforation_defaults\<lparr>dry_meal_throughput := 0\<rparr>"]
  by (simp add: perforation_defaults_def)

subsection \<open>C4: the holes per row\<close>

text \<open>
  C4: in \<open>die_perforation_6.py\<close>, for at least one hole and at least one row,
  \<open>holes_per_row\<close> is the floor of \<open>total_holes / number_of_rows\<close>, and the ring layout
  draws \<open>number_of_rows * holes_per_row\<close> holes in all, which is \<open>total_holes\<close> less the
  remainder of the division: the remainder is dropped.
\<close>

theorem holes_per_row_floor:
  assumes "1 \<le> total_holes w" and "1 \<le> number_of_rows w"
  shows "holes_per_row w = Inr \<lfloor>real_of_int (total_holes w) / real_of_int (number_of_rows w)\<rfloor>
    \<and> holes_per_row w = Inr (total_holes w div number_of_rows w)
    \<and> int (length (concat (ring_layout w (total_holes w div number_of_rows w))))
        = number_of_rows w * (total_holes w div number_of_rows w)
    \<and> int (length (concat (ring_layout w (total_holes w div number_of_rows w))))
        = total_holes w - total_holes w mod number_of_rows w"
proof -
  have d: "0 \<le> total_holes w div number_of_rows w"
    using assms by (simp add: pos_imp_zdiv_nonneg_iff)
  have h: "holes_per_row w = Inr (total_holes w div number_of_rows w)"
    using assms by (simp add: holes_per_row_def py_truediv_def py_int_of_int_div)
  have l: "int (length (concat (ring_layout w (total_holes w div number_of_rows w))))
        = number_of_rows w * (total_holes w div number_of_rows w)"
    using assms d by (simp add: length_concat_ring_layout)
  have m: "number_of_rows w * (total_holes w div number_of_rows w)
        = total_holes w - total_holes w mod number_of_rows w"
    by (simp add: minus_mod_eq_mult_div)
  show ?thesis using h l m by (simp add: floor_divide_of_int_eq)
qed

theorem holes_per_row_floor_witness:
  "1 \<le> total_holes (perforation_defaults\<lparr>total_holes := 103\<rparr>)
   \<and> 1 \<le> number_of_rows (perforation_defaults\<lparr>total_holes := 103\<rparr>)
   \<and> holes_per_row (perforation_defaults\<lparr>total_holes := 103\<rparr>) = Inr 20
   \<and> length (concat (ring_layout (perforation_defaults\<lparr>total_holes := 103\<rparr>) 20)) = 100"
  using holes_per_row_floor [of "perforation_defaults\<lparr>total_holes := 103\<rparr>"]
  by (simp add: perforation_defaults_def)

subsection \<open>C5: the space between holes\<close>

text \<open>
  C5: when \<open>holes_per_row\<close> is at least 1, the loop over the rows returns one spacing
  per row, in the order of the rows, the spacing of row \<open>r\<close> being
  \<open>2 * pi * (pcd / 2) / holes_per_row - final_diameter\<close> for the row's pitch circle
  diameter; and the block of calculated outputs returns that list unless the dry meal
  throughput is 0.
\<close>

theorem space_between_holes_list_aligned:
  assumes "holes_per_row w = Inr hpr" and "1 \<le> hpr"
  shows "\<exists>s. space_between_holes_list w hpr = Inr s
    \<and> length s = length (pcd_values w)
    \<and> (\<forall>r < length (pcd_values w).
          s ! r = 2 * pi * (pcd_values w ! r / 2) / real_of_int hpr - final_diameter w)
    \<and> (dry_meal_throughput w \<noteq> 0 \<longrightarrow>
          (\<exists>out. calculated_outputs w = Inr out \<and> out_holes_per_row out = hpr
             \<and> out_space_between_holes_list out = s))"
proof -
  let ?s = "map (\<lambda>pcd. 2 * pi * (pcd / 2) / real_of_int hpr - final_diameter w) (pcd_values w)"
  have s: "space_between_holes_list w hpr = Inr ?s"
    using assms(2) by (simp add: space_between_holes_list_def space_between_holes_loop_ok)
  have a: "\<exists>a. cone_angle_deg w = Inr a"
    by (cases "cone_length w > 0") (simp_all add: cone_angle_deg_positive_length cone_angle_deg_degenerate)
  have e: "\<exists>x. expansion w = Inr x"
    by (simp add: expansion_def py_truediv_def)
  have o: "dry_meal_throughput w \<noteq> 0 \<Longrightarrow> \<exists>x. open_area_per_tonne w = Inr x"
    by (simp add: open_area_per_tonne_def py_truediv_def)
  have c: "dry_meal_throughput w \<noteq> 0 \<Longrightarrow>
          (\<exists>out. calculated_outputs w = Inr out \<and> out_holes_per_row out = hpr
             \<and> out_space_between_holes_list out = ?s)"
    using a e o s assms(1) by (auto simp add: calculated_outputs_def)
  show ?thesis
    using s c by simp
qed

theorem space_between_holes_list_aligned_witness:
  "holes_per_row perforation_defaults = Inr 20 \<and> (1::int) \<le> 20
   \<and> (\<exists>s. space_between_holes_list perforation_defaults 20 = Inr s
         \<and> length s = 5 \<and> s ! 0 = 2 * pi * (100 / 2) / 20 - 3)"
proof -
  have h: "holes_per_row perforation_defaults = Inr 20"
    by (simp add: holes_per_row_def py_truediv_def py_int_def perforation_defaults_def)
  have n: "length (pcd_values perforation_defaults) = 5"
    by (simp add: length_pcd_values perforation_defaults_def)
  have p: "pcd_values perforation_defaults ! 0 = 100"
    by (simp add: pcd_values_def perforation_defaults_def)
  have f: "final_diameter perforation_defaults = 3"
    by (simp add: perforation_defaults_def)
  show ?thesis
    using space_between_holes_list_aligned [OF h] h n p f by auto
qed

subsection \<open>C6: divisions by zero\<close>

text \<open>
  C6 as stated fails: a division with a negative divisor is not rejected. At a dry meal
  throughput of -1 the calculated outputs are returned, with a negative open area per
  tonne.
\<close>

theorem calculated_outputs_negative_throughput:
  "dry_meal_throughput (perforation_defaults\<lparr>dry_meal_throughput := - 1\<rparr>) < 0
   \<and> open_area_per_tonne (perforation_defaults\<lparr>dry_meal_throughput := - 1\<rparr>)
       = Inr (- (pi * (3 / 2) ^ 2 * 100))
   \<and> \<not> isl (calculated_outputs (perforation_defaults\<lparr>dry_meal_throughput := - 1\<rparr>))"
proof -
  let ?w = "perforation_defaults\<lparr>dry_meal_throughput := - 1\<rparr>"
  have "calculated_outputs ?w \<noteq> Inl ZeroDivisionError"
    by (simp add: calculated_outputs_error_iff)
      (simp add: perforation_defaults_def holes_per_row_def py_truediv_def py_int_def)
  then have "\<not> isl (calculated_outputs ?w)"
    by (cases "calculated_outputs ?w") (auto intro: py_error.exhaust)
  then show ?thesis
    by (simp add: perforation_defaults_def open_area_per_tonne_def py_truediv_def
        total_open_area_def open_area_one_hole_def)
qed

text \<open>
  C6, amended: the calculated outputs of \<open>die_perforation_6.py\<close> fail, always with
  Python's \<open>ZeroDivisionError\<close> and so without any result, exactly when a division
  that is not guarded has the divisor 0: \<open>number_of_rows\<close> is 0, or the dry meal
  throughput is 0, or there is a row and \<open>holes_per_row\<close> is 0. The last case arises
  whenever \<open>0 \<le> total_holes < number_of_rows\<close>. A negative divisor is no error: the
  quotient is returned.
\<close>

theorem calculated_outputs_zero_division:
  "(calculated_outputs w = Inl ZeroDivisionError \<longleftrightarrow>
      number_of_rows w = 0 \<or> dry_meal_throughput w = 0
      \<or> (1 \<le> number_of_rows w \<and> holes_per_row w = Inr 0))
   \<and> (0 \<le> total_holes w \<and> total_holes w < number_of_rows w \<longrightarrow>
        holes_per_row w = Inr 0 \<and> calculated_outputs w = Inl ZeroDivisionError)
   \<and> (dry_meal_throughput w < 0 \<longrightarrow>
        open_area_per_tonne w = Inr (total_open_area w / dry_meal_throughput w))"
proof -
  have "holes_per_row w = Inr 0 \<and> calculated_outputs w = Inl ZeroDivisionError"
    if "0 \<le> total_holes w \<and> total_holes w < number_of_rows w"
    using that holes_per_row_zero [of w] by (simp add: calculated_outputs_error_iff)
  then show ?thesis
    by (simp add: calculated_outputs_error_iff open_area_per_tonne_def py_truediv_def)
qed

theorem calculated_outputs_zero_division_witness:
  "0 \<le> total_holes (perforation_defaults\<lparr>total_holes := 3\<rparr>)
   \<and> total_holes (perforation_defaults\<lparr>total_holes := 3\<rparr>)
        < number_of_rows (perforation_defaults\<lparr>total_holes := 3\<rparr>)
   \<and> holes_per_row (perforation_defaults\<lparr>total_holes := 3\<rparr>) = Inr 0
   \<and> calculated_outputs (perforation_defaults\<lparr>total_holes := 3\<rparr>) = Inl ZeroDivisionError
   \<and> dry_meal_throughput (perforation_defaults\<lparr>dry_meal_throughput := - 1\<rparr>) < 0
   \<and> open_area_per_tonne (perforation_defaults\<lparr>dry_meal_throughput := - 1\<rparr>)
        = Inr (total_open_area perforation_defaults / (- 1))"
  using calculated_outputs_zero_division [of "perforation_defaults\<lparr>total_holes := 3\<rparr>"]
    calculated_outputs_zero_division [of "perforation_defaults\<lparr>dry_meal_throughput := - 1\<rparr>"]
  by (simp add: perforation_defaults_def total_open_area_def open_area_one_hole_def)

subsection \<open>C7: the cone radius of the surface of revolution\<close>

text \<open>
  C7, for the surface of revolution of \<open>die_perforation_6.py\<close>: with a cone length
  above 0, at each of the 30 depth samples \<open>z\<close>, which lie between 0 and the cone
  length, the cone radius is finite and equals
  \<open>cone_diameter/2 - (cone_diameter - final_diameter)/2 * (z/cone_length)\<close>; with a cone
  length of 0 or below, the cone radius is \<open>final_diameter/2\<close> at every depth sample,
  and no division fails: no radius is other than finite and the cone angle is returned
  as 0; the channel radius is \<open>final_diameter/2\<close> at each of its 10 depth samples, and
  each point of the channel surface, at every depth and angle sample, lies at that
  radius from the axis.
\<close>

theorem r_cone_linear:
  "(0 < cone_length w \<longrightarrow>
      (\<forall>k < 30.
          r_cone w ! k =
            Finite (cone_diameter w / 2
                    - (cone_diameter w - final_diameter w) / 2
                      * (z_cone w ! k / cone_length w))
          \<and> 0 \<le> z_cone w ! k \<and> z_cone w ! k \<le> cone_length w))
   \<and> (cone_length w \<le> 0 \<longrightarrow>
        r_cone w = replicate 30 (Finite (final_diameter w / 2))
        \<and> cone_angle_deg w = Inr 0)
   \<and> length (z_cone w) = 30 \<and> length (r_cone w) = 30
   \<and> Not_Finite \<notin> set (r_cone w)
   \<and> r_channel w = replicate 10 (final_diameter w / 2)
   \<and> (\<forall>j < 10. \<forall>i < 30.
          x_channel w ! j ! i = final_diameter w / 2 * cos (theta ! i)
          \<and> y_channel w ! j ! i = final_diameter w / 2 * sin (theta ! i)
          \<and> (x_channel w ! j ! i)\<^sup>2 + (y_channel w ! j ! i)\<^sup>2 = (final_diameter w / 2)\<^sup>2)"
proof -
  have pos: "r_cone w ! k =
            Finite (cone_diameter w / 2
                    - (cone_diameter w - final_diameter w) / 2
                      * (z_cone w ! k / cone_length w))
          \<and> 0 \<le> z_cone w ! k \<and> z_cone w ! k \<le> cone_length w"
    if "0 < cone_length w" and "k < 30" for k
    using that r_cone_positive_length [of w k] z_cone_range [of k w] by simp
  have fin: "Not_Finite \<notin> set (r_cone w)"
  proof (cases "0 < cone_length w")
    case True
    then show ?thesis
      by (auto simp add: r_cone_def np_divide_def)
  next
    case False
    then show ?thesis
      by (simp add: r_cone_degenerate)
  qed
  have chan: "x_channel w ! j ! i = final_diameter w / 2 * cos (theta ! i)
          \<and> y_channel w ! j ! i = final_diameter w / 2 * sin (theta ! i)
          \<and> (x_channel w ! j ! i)\<^sup>2 + (y_channel w ! j ! i)\<^sup>2 = (final_diameter w / 2)\<^sup>2"
    if "j < 10" and "i < 30" for j i
  proof -
    have "length theta = 30"
      by (simp add: theta_def length_np_linspace)
    then show ?thesis
      using that channel_surface_radius [of j i w]
      by (simp add: x_channel_def y_channel_def r_channel_constant)
  qed
  show ?thesis
    using pos fin chan
    by (simp add: r_cone_degenerate cone_angle_deg_degenerate length_z_cone length_r_cone
        r_channel_constant)
qed

theorem r_cone_linear_witness:
  "0 < cone_length perforation_defaults \<and> (29::nat) < 30
   \<and> z_cone perforation_defaults ! 29 = 15
   \<and> r_cone perforation_defaults ! 29 = Finite (3 / 2)
   \<and> r_cone perforation_defaults ! 0 = Finite 3
   \<and> cone_length (perforation_defaults\<lparr>channel_length := 20\<rparr>) \<le> 0
   \<and> r_cone (perforation_defaults\<lparr>channel_length := 20\<rparr>) = replicate 30 (Finite (3 / 2))
   \<and> cone_angle_deg (perforation_defaults\<lparr>channel_length := 20\<rparr>) = Inr 0
   \<and> (3::nat) < 10 \<and> (7::nat) < 30
   \<and> (x_channel perforation_defaults ! 3 ! 7)\<^sup>2 + (y_channel perforation_defaults ! 3 ! 7)\<^sup>2
        = (3 / 2)\<^sup>2"
proof -
  have c: "cone_length perforation_defaults = 15"
    by (simp add: cone_length_def perforation_defaults_def)
  have d: "cone_length (perforation_defaults\<lparr>channel_length := 20\<rparr>) = 0"
    by (simp add: cone_length_def perforation_defaults_def)
  have e: "cone_diameter perforation_defaults = 6" "final_diameter perforation_defaults = 3"
    by (simp_all add: perforation_defaults_def)
  have z: "z_cone perforation_defaults ! 29 = 15" "z_cone perforation_defaults ! 0 = 0"
    by (simp_all add: nth_z_cone c)
  show ?thesis
    using r_cone_linear [of perforation_defaults]
      r_cone_linear [of "perforation_defaults\<lparr>channel_length := 20\<rparr>"]
      c d e z
    by simp
qed

subsection \<open>C8: the ring layout\<close>

text \<open>
  C8: in a row with the pitch circle diameter \<open>d\<close> and \<open>n \<ge> 1\<close> holes, hole \<open>i < n\<close>
  has its centre at \<open>(d/2 * cos (2 * pi * i / n), d/2 * sin (2 * pi * i / n))\<close>, at the
  distance \<open>\<bar>d/2\<bar>\<close> from the origin (\<open>d/2\<close> for the pitch circle diameters above 0
  that the sliders give); the angles of consecutive holes differ by \<open>2 * pi / n\<close>, and
  the first hole of every row is at the angle 0, at \<open>(d/2, 0)\<close>. This holds for the
  layout of \<open>die_perforation_6.py\<close>, where \<open>n\<close> is \<open>holes_per_row\<close>, and for that of
  the \<open>die_designer_final\<close> scripts, where \<open>n\<close> is the row's own number of holes.
\<close>

theorem ring_layout_centers:
  assumes "row < nat (number_of_rows w)" and "1 \<le> n" and "i < nat n"
    and "d = pcd_values w ! row"
  shows "length (ring_layout w n ! row) = nat n
    \<and> hole_x (ring_layout w n ! row ! i) = d / 2 * cos (2 * pi * real i / real_of_int n)
    \<and> hole_y (ring_layout w n ! row ! i) = d / 2 * sin (2 * pi * real i / real_of_int n)
    \<and> sqrt ((hole_x (ring_layout w n ! row ! i))\<^sup>2 + (hole_y (ring_layout w n ! row ! i))\<^sup>2)
        = \<bar>d / 2\<bar>
    \<and> (0 \<le> d \<longrightarrow>
        sqrt ((hole_x (ring_layout w n ! row ! i))\<^sup>2 + (hole_y (ring_layout w n ! row ! i))\<^sup>2)
          = d / 2)
    \<and> (holes_per_row_list w ! row = n \<longrightarrow> ring_layout_final w ! row = ring_layout w n ! row)
    \<and> hole_angle n 0 = 0
    \<and> hole_x (ring_layout w n ! row ! 0) = d / 2 \<and> hole_y (ring_layout w n ! row ! 0) = 0
    \<and> hole_angle n (Suc i) - hole_angle n i = 2 * pi / real_of_int n"
proof -
  have r: "ring_layout w n ! row = ring_row (final_diameter w) row (d / 2) n"
    using assms(1,4) by (simp add: ring_layout_row)
  have f: "holes_per_row_list w ! row = n \<Longrightarrow> ring_layout_final w ! row = ring_layout w n ! row"
    using assms(1,4) by (simp add: ring_layout_final_row r)
  have z: "0 < nat n" using assms(2) by simp
  have s: "hole_angle n (Suc i) - hole_angle n i = 2 * pi / real_of_int n"
    using assms(2) by (intro hole_angle_step) simp
  have x: "hole_x (ring_layout w n ! row ! i) = d / 2 * cos (2 * pi * real i / real_of_int n)"
    and y: "hole_y (ring_layout w n ! row ! i) = d / 2 * sin (2 * pi * real i / real_of_int n)"
    using assms(3) by (simp_all add: r nth_ring_row)
  have c: "sqrt ((hole_x (ring_layout w n ! row ! i))\<^sup>2 + (hole_y (ring_layout w n ! row ! i))\<^sup>2)
        = \<bar>d / 2\<bar>"
    unfolding x y by (rule circle_distance)
  have o: "hole_x (ring_layout w n ! row ! 0) = d / 2 \<and> hole_y (ring_layout w n ! row ! 0) = 0"
    using z by (simp add: r nth_ring_row)
  have l: "length (ring_layout w n ! row) = nat n"
    by (simp add: r length_ring_row)
  have h: "hole_angle n 0 = 0" by (simp add: hole_angle_def)
  show ?thesis
    using l x y c f h o s by simp
qed

theorem ring_layout_centers_witness:
  "0 < nat (number_of_rows final_defaults) \<and> (1::int) \<le> 10 \<and> (1::nat) < nat 10
   \<and> 100 = pcd_values final_defaults ! 0
   \<and> (0::real) \<le> 100
   \<and> holes_per_row_list final_defaults ! 0 = 10
   \<and> length (ring_layout final_defaults 10 ! 0) = nat 10
   \<and> hole_x (ring_layout final_defaults 10 ! 0 ! 1) = 100 / 2 * cos (2 * pi * real 1 / real_of_int 10)
   \<and> hole_y (ring_layout final_defaults 10 ! 0 ! 1) = 100 / 2 * sin (2 * pi * real 1 / real_of_int 10)
   \<and> sqrt ((hole_x (ring_layout final_defaults 10 ! 0 ! 1))\<^sup>2
             + (hole_y (ring_layout final_defaults 10 ! 0 ! 1))\<^sup>2) = 100 / 2
   \<and> ring_layout_final final_defaults ! 0 = ring_layout final_defaults 10 ! 0
   \<and> hole_x (ring_layout final_defaults 10 ! 0 ! 0) = 100 / 2
   \<and> hole_y (ring_layout final_defaults 10 ! 0 ! 0) = 0
   \<and> hole_angle 10 (Suc 1) - hole_angle 10 1 = 2 * pi / real_of_int 10"
proof -
  have r: "0 < nat (number_of_rows final_defaults)"
    by (simp add: final_defaults_def)
  have p: "100 = pcd_values final_defaults ! 0"
    by (simp add: pcd_values_def final_defaults_def)
  have h: "holes_per_row_list final_defaults ! 0 = 10"
    by (simp add: holes_per_row_list_def final_defaults_def)
  have n: "(1::int) \<le> 10" and i: "(1::nat) < nat 10" and z: "(0::real) \<le> 100"
    by simp_all
  from ring_layout_centers [OF r n i p] r p h n i z show ?thesis
    by blast
qed

subsection \<open>C9: the profile\<close>

text \<open>
  C9: the polygon of the cross-section is closed and has the six vertices
  \<open>(-cone_diameter/2, 0)\<close>, \<open>(-final_diameter/2, cone_length)\<close>,
  \<open>(-final_diameter/2, plate_thickness)\<close>, \<open>(final_diameter/2, plate_thickness)\<close>,
  \<open>(final_diameter/2, cone_length)\<close>, \<open>(cone_diameter/2, 0)\<close> in this order, with
  \<open>cone_length = plate_thickness - channel_length\<close>; the channel rectangle has the origin
  \<open>(-final_diameter/2, cone_length)\<close>, the width \<open>final_diameter\<close> and the height
  \<open>channel_length\<close>.
\<close>

theorem build_profile:
  "xy (cone_patch w) =
     [(- cone_diameter w / 2, 0),
      (- final_diameter w / 2, plate_thickness w - channel_length w),
      (- final_diameter w / 2, plate_thickness w),
      (final_diameter w / 2, plate_thickness w),
      (final_diameter w / 2, plate_thickness w - channel_length w),
      (cone_diameter w / 2, 0)]
   \<and> closed (cone_patch w)
   \<and> cone_length w = plate_thickness w - channel_length w
   \<and> rect_xy (channel_patch w) = (- final_diameter w / 2, plate_thickness w - channel_length w)
   \<and> width (channel_patch w) = final_diameter w
   \<and> height (channel_patch w) = channel_length w"
  by (simp add: cone_patch_def channel_patch_def cone_length_def)

subsection \<open>C10: the space between rows\<close>

text \<open>
  C10: with at least two rows, \<open>space_between_rows\<close> is the mean of the differences of
  consecutive elements of the sorted pitch circle diameters, which is their maximum
  less their minimum, divided by \<open>number_of_rows - 1\<close>; with fewer than two rows it is 0;
  and two inputs whose pitch circle diameters are the same up to their order have the
  same \<open>space_between_rows\<close>.
\<close>

theorem space_between_rows_mean:
  "(2 \<le> number_of_rows w \<longrightarrow>
      space_between_rows w = np_mean (np_diff (sort (pcd_values w)))
      \<and> length (np_diff (sort (pcd_values w))) = nat (number_of_rows w) - 1
      \<and> (\<forall>i. Suc i < nat (number_of_rows w) \<longrightarrow>
            np_diff (sort (pcd_values w)) ! i
              = sort (pcd_values w) ! Suc i - sort (pcd_values w) ! i)
      \<and> space_between_rows w
          = (Max (set (pcd_values w)) - Min (set (pcd_values w)))
            / (real_of_int (number_of_rows w) - 1))
   \<and> (number_of_rows w < 2 \<longrightarrow> space_between_rows w = 0)
   \<and> (mset (pcd_values v) = mset (pcd_values w) \<longrightarrow>
        space_between_rows v = space_between_rows w)"
proof -
  have a: "space_between_rows w = np_mean (np_diff (sort (pcd_values w)))"
    if "2 \<le> number_of_rows w"
    using that by (simp add: space_between_rows_def length_pcd_values)
  have b: "space_between_rows w
          = (Max (set (pcd_values w)) - Min (set (pcd_values w)))
            / (real_of_int (number_of_rows w) - 1)"
    if "2 \<le> number_of_rows w"
  proof -
    have "2 \<le> length (pcd_values w)" using that by (simp add: length_pcd_values)
    from np_mean_np_diff_sort [OF this] a [OF that] that show ?thesis
      by (simp add: length_pcd_values)
  qed
  have c: "np_diff (sort (pcd_values w)) ! i
              = sort (pcd_values w) ! Suc i - sort (pcd_values w) ! i"
    if "Suc i < nat (number_of_rows w)" for i
    using that by (simp add: nth_np_diff length_pcd_values)
  have d: "space_between_rows w = 0" if "number_of_rows w < 2"
    using that by (simp add: space_between_rows_def length_pcd_values)
  have e: "space_between_rows v = space_between_rows w"
    if "mset (pcd_values v) = mset (pcd_values w)"
  proof -
    have "length (pcd_values v) = length (pcd_values w)"
      using that by (rule mset_eq_length)
    with sort_mset_eq [OF that] show ?thesis
      by (simp add: space_between_rows_def)
  qed
  show ?thesis
    using a b c d e by (simp add: length_np_diff length_pcd_values)
qed

theorem space_between_rows_mean_witness:
  "2 \<le> number_of_rows three_rows
   \<and> space_between_rows three_rows = 150
   \<and> number_of_rows (perforation_defaults\<lparr>number_of_rows := 1\<rparr>) < 2
   \<and> space_between_rows (perforation_defaults\<lparr>number_of_rows := 1\<rparr>) = 0
   \<and> mset (pcd_values three_rows_permuted) = mset (pcd_values three_rows)
   \<and> space_between_rows three_rows_permuted = 150"
proof -
  have p: "pcd_values three_rows = [200, 100, 400]"
    by (simp add: pcd_values_def three_rows_def perforation_defaults_def upt_rec)
  have q: "pcd_values three_rows_permuted = [400, 200, 100]"
    by (simp add: pcd_values_def three_rows_permuted_def perforation_defaults_def upt_rec)
  have n: "number_of_rows three_rows = 3"
    by (simp add: three_rows_def)
  have m: "mset (pcd_values three_rows_permuted) = mset (pcd_values three_rows)"
    by (simp add: p q)
  have o: "number_of_rows (perforation_defaults\<lparr>number_of_rows := 1\<rparr>) < 2"
    by simp
  show ?thesis
    using space_between_rows_mean [of three_rows three_rows_permuted]
      space_between_rows_mean [of "perforation_defaults\<lparr>number_of_rows := 1\<rparr>" three_rows]
      p n m o
    by simp
qed

end
